theory Spec2Isabelle
  imports Complex_Main "HOL-Library.AList"
begin

section \<open>Python values\<close>

text \<open>
  The supervisor, the workflow and the workers exchange values that come out of
  \<^verbatim>\<open>json.loads\<close> (analysis and plan), plain strings, and dictionaries built by the
  code itself. One datatype holds them all. A dictionary is an association list in
  insertion order; a dictionary key is modelled by its equality class, so that Python's
  \<^verbatim>\<open>1\<close>, \<^verbatim>\<open>1.0\<close> and \<^verbatim>\<open>True\<close> are the one key \<open>KNum 1\<close>. A float is a real number
  (no NaN, no infinity); a string is a list of characters with code points below 256.
\<close>

datatype key = KNone | KNum real | KStr string

datatype pyval =
    PNone
  | PBool bool
  | PInt int
  | PFloat real
  | PStr string
  | PList "pyval list"
  | PDict "(key \<times> pyval) list"

text \<open>
  Exceptions. \<open>Raised t\<close> is any other exception (of the language model client, or
  RecursionError and the like) whose \<^verbatim>\<open>str(e)\<close> is \<open>t\<close>; \<open>JSONDecodeError\<close> and
  \<open>ValueError\<close> carry their message too. The interpreter's own type and attribute errors
  carry the offending value; \<open>ValidationError\<close> is pydantic's.
\<close>

datatype pyexc =
    NameError string
  | KeyError string
  | AttributeError pyval string
  | TypeError pyval
  | ValidationError pyval
  | JSONDecodeError string
  | ValueError string
  | Raised string

text \<open>The truth value of \<^verbatim>\<open>if v:\<close>.\<close>

fun py_truthy :: "pyval \<Rightarrow> bool" where
  "py_truthy PNone = False"
| "py_truthy (PBool b) = b"
| "py_truthy (PInt i) = (i \<noteq> 0)"
| "py_truthy (PFloat r) = (r \<noteq> 0)"
| "py_truthy (PStr s) = (s \<noteq> [])"
| "py_truthy (PList xs) = (xs \<noteq> [])"
| "py_truthy (PDict d) = (d \<noteq> [])"

text \<open>\<^verbatim>\<open>v.get(k, default)\<close>: only a dictionary has the method.\<close>

fun py_get :: "pyval \<Rightarrow> string \<Rightarrow> pyval \<Rightarrow> pyexc + pyval" where
  "py_get (PDict d) k dflt = Inr (case map_of d (KStr k) of None \<Rightarrow> dflt | Some v \<Rightarrow> v)"
| "py_get v k dflt = Inl (AttributeError v ''get'')"

text \<open>\<^verbatim>\<open>v[k]\<close> with a string \<open>k\<close>: a missing key raises KeyError, any value that
  is not a dictionary raises TypeError.\<close>

fun py_getitem :: "pyval \<Rightarrow> string \<Rightarrow> pyexc + pyval" where
  "py_getitem (PDict d) k = (case map_of d (KStr k) of None \<Rightarrow> Inl (KeyError k) | Some v \<Rightarrow> Inr v)"
| "py_getitem v k = Inl (TypeError v)"

text \<open>The key a value hashes to; lists and dictionaries are unhashable.\<close>

fun py_hash :: "pyval \<Rightarrow> pyexc + key" where
  "py_hash PNone = Inr KNone"
| "py_hash (PBool b) = Inr (KNum (if b then 1 else 0))"
| "py_hash (PInt i) = Inr (KNum (of_int i))"
| "py_hash (PFloat r) = Inr (KNum r)"
| "py_hash (PStr s) = Inr (KStr s)"
| "py_hash v = Inl (TypeError v)"

fun key_value :: "key \<Rightarrow> pyval" where
  "key_value KNone = PNone"
| "key_value (KNum r) = PFloat r"
| "key_value (KStr s) = PStr s"

text \<open>\<^verbatim>\<open>for x in v\<close>: a list gives its elements, a dictionary its keys, a string
  its characters; nothing else is iterable.\<close>

fun py_iter :: "pyval \<Rightarrow> pyexc + pyval list" where
  "py_iter (PList xs) = Inr xs"
| "py_iter (PDict d) = Inr (map (key_value \<circ> fst) d)"
| "py_iter (PStr s) = Inr (map (\<lambda>c. PStr [c]) s)"
| "py_iter v = Inl (TypeError v)"

fun join_str :: "string \<Rightarrow> string list \<Rightarrow> string" where
  "join_str sep [] = []"
| "join_str sep [x] = x"
| "join_str sep (x # y # ys) = x @ sep @ join_str sep (y # ys)"

fun the_str :: "pyval \<Rightarrow> string option" where
  "the_str (PStr s) = Some s"
| "the_str v = None"

text \<open>\<^verbatim>\<open>sep.join(v)\<close>: \<open>v\<close> must be iterable and every item a string.\<close>

definition py_join :: "string \<Rightarrow> pyval \<Rightarrow> pyexc + string" where
  "py_join sep v =
     (case py_iter v of
        Inl e \<Rightarrow> Inl e
      | Inr xs \<Rightarrow>
          if list_all (\<lambda>x. the_str x \<noteq> None) xs
          then Inr (join_str sep (List.map_filter the_str xs))
          else Inl (TypeError v))"

text \<open>\<^verbatim>\<open>xs[i:]\<close>: a negative start counts from the end and is clamped at the
  front; a start beyond the end gives the empty list.\<close>

definition py_slice_from :: "'a list \<Rightarrow> int \<Rightarrow> 'a list" where
  "py_slice_from xs i =
     (let n = int (length xs);
          j = (if i < 0 then max 0 (n + i) else min i n)
      in drop (nat j) xs)"

section \<open>models.py\<close>

datatype MessageType =
  USER_INPUT | SUPERVISOR_QUESTION | WORKER_RESPONSE | SUPERVISOR_DECISION | WORKER_TASK

text \<open>The \<^verbatim>\<open>timestamp\<close> of a message and the \<^verbatim>\<open>last_activity\<close> of a worker state
  are wall-clock readings that no operation below inspects; the records leave them out.\<close>

record Message =
  content :: string
  sender :: string
  message_type :: MessageType
  metadata :: "pyval option"

record SupervisorMemory =
  conversation_history :: "Message list"
  user_preferences :: "(string \<times> pyval) list"
  context_gathered :: "(string \<times> pyval) list"
  decision_history :: "pyval list"

definition new_SupervisorMemory :: SupervisorMemory where
  "new_SupervisorMemory =
     \<lparr>conversation_history = [], user_preferences = [], context_gathered = [],
      decision_history = []\<rparr>"

definition add_message :: "SupervisorMemory \<Rightarrow> Message \<Rightarrow> SupervisorMemory" where
  "add_message mem m =
     (let h = conversation_history mem @ [m]
      in mem\<lparr>conversation_history := (if length h > 10 then py_slice_from h (- 10) else h)\<rparr>)"

definition get_recent_context :: "SupervisorMemory \<Rightarrow> int \<Rightarrow> Message list" where
  "get_recent_context mem limit =
     (if conversation_history mem \<noteq> []
      then py_slice_from (conversation_history mem) (- limit)
      else [])"

definition update_context :: "SupervisorMemory \<Rightarrow> string \<Rightarrow> pyval \<Rightarrow> SupervisorMemory" where
  "update_context mem k v = mem\<lparr>context_gathered := AList.update k v (context_gathered mem)\<rparr>"

record WorkerState =
  worker_id :: string
  current_task :: "pyval option"
  task_result :: "string option"
  is_busy :: bool

record SystemState =
  supervisor_memory :: SupervisorMemory
  worker_states :: "(key \<times> WorkerState) list"
  current_phase :: string
  user_query :: "string option"
  final_response :: "string option"
  error_message :: "string option"

definition new_SystemState :: "string \<Rightarrow> SystemState" where
  "new_SystemState q =
     \<lparr>supervisor_memory = new_SupervisorMemory, worker_states = [],
      current_phase = ''gathering_info'', user_query = Some q,
      final_response = None, error_message = None\<rparr>"

section \<open>The collaborators\<close>

text \<open>
  The language model, the JSON parser, pydantic's validation and the interpreter's message
  texts are outside the repository. Each is a parameter. A call of the language model
  either raises (\<open>Raises t\<close>, with \<^verbatim>\<open>str(e) = t\<close>) or returns a response whose
  \<^verbatim>\<open>content\<close> is a text. The supervisor calls it at four places, each at most once in a
  run; a worker is called once per assignment, so its reply is indexed by the position of
  the assignment in the plan. \<open>json_loads\<close> is the value \<^verbatim>\<open>json.loads\<close> returns or the
  exception it raises: JSONDecodeError for a text that is not JSON, and others for a text
  it gives up on (ValueError for an integer with too many digits, RecursionError for deep
  nesting). \<open>py_str\<close> is what an f-string prints for a value that is not a string,
  \<open>pydantic_str\<close> what pydantic makes of such a value given for a field declared
  \<^verbatim>\<open>str\<close>, and \<open>exc_text\<close> the message of an error raised by the interpreter or by
  pydantic.
\<close>

datatype reply = Raises string | Content string

record env =
  analysis_llm :: reply
  questions_llm :: reply
  plan_llm :: reply
  synthesis_llm :: reply
  worker_llm :: "nat \<Rightarrow> reply"
  json_loads :: "string \<Rightarrow> pyexc + pyval"
  py_str :: "pyval \<Rightarrow> string"
  pydantic_str :: "pyval \<Rightarrow> pyexc + string"
  exc_text :: "pyexc \<Rightarrow> string"

text \<open>\<^verbatim>\<open>str(e)\<close>.\<close>

definition str_exc :: "env \<Rightarrow> pyexc \<Rightarrow> string" where
  "str_exc w e =
     (case e of
        NameError n \<Rightarrow> ''name '' @ [CHR 0x27] @ n @ [CHR 0x27] @ '' is not defined''
      | KeyError k \<Rightarrow> [CHR 0x27] @ k @ [CHR 0x27]
      | JSONDecodeError t \<Rightarrow> t
      | ValueError t \<Rightarrow> t
      | Raised t \<Rightarrow> t
      | _ \<Rightarrow> exc_text w e)"

text \<open>A value inside an f-string.\<close>

definition fmt :: "env \<Rightarrow> pyval \<Rightarrow> string" where
  "fmt w v = (case v of PStr s \<Rightarrow> s | _ \<Rightarrow> py_str w v)"

text \<open>\<^verbatim>\<open>WorkerState(worker_id=v)\<close>: the other fields take their defaults.\<close>

definition new_WorkerState :: "env \<Rightarrow> pyval \<Rightarrow> pyexc + WorkerState" where
  "new_WorkerState w v =
     (case (case v of PStr s \<Rightarrow> Inr s | _ \<Rightarrow> pydantic_str w v) of
        Inl e \<Rightarrow> Inl e
      | Inr s \<Rightarrow> Inr \<lparr>worker_id = s, current_task = None, task_result = None, is_busy = False\<rparr>)"

section \<open>workers.py\<close>

datatype worker = ResearchWorker | CreativeWorker

definition WORKER_REGISTRY :: "(key \<times> worker) list" where
  "WORKER_REGISTRY =
     [(KStr ''research_worker'', ResearchWorker), (KStr ''creative_worker'', CreativeWorker)]"

text \<open>\<^verbatim>\<open>process_task\<close> of either worker class: the whole body is inside
  \<^verbatim>\<open>try ... except Exception\<close>, so it returns a text whatever the model does.\<close>

definition process_task :: "env \<Rightarrow> nat \<Rightarrow> worker \<Rightarrow> pyval \<Rightarrow> (string \<times> pyval) list \<Rightarrow> string" where
  "process_task w i wk task ctx =
     (case worker_llm w i of
        Content c \<Rightarrow> c
      | Raises t \<Rightarrow>
          (case wk of
             ResearchWorker \<Rightarrow> ''Error in research worker: '' @ t
           | CreativeWorker \<Rightarrow> ''Error in creative worker: '' @ t))"

definition execute_worker_task ::
  "env \<Rightarrow> nat \<Rightarrow> pyval \<Rightarrow> pyval \<Rightarrow> (string \<times> pyval) list \<Rightarrow> pyexc + string" where
  "execute_worker_task w i wid task ctx =
     (case py_hash wid of
        Inl e \<Rightarrow> Inl e
      | Inr k \<Rightarrow>
          (case map_of WORKER_REGISTRY k of
             None \<Rightarrow> Inr (''Worker '' @ fmt w wid @ '' not found'')
           | Some wk \<Rightarrow> Inr (process_task w i wk task ctx)))"

section \<open>supervisor.py\<close>

definition analysis_parse_fallback :: pyval where
  "analysis_parse_fallback =
     PDict
      [(KStr ''has_sufficient_info'', PBool False),
       (KStr ''missing_information'', PList [PStr ''Unable to parse analysis'']),
       (KStr ''follow_up_questions'', PList [PStr ''Could you please rephrase your request?'']),
       (KStr ''execution_plan'',
          PDict [(KStr ''required_workers'', PList []), (KStr ''task_breakdown'', PList []),
                 (KStr ''estimated_complexity'', PStr ''unknown'')]),
       (KStr ''confidence_score'', PFloat 0)]"

definition analysis_error_fallback :: "string \<Rightarrow> pyval" where
  "analysis_error_fallback t =
     PDict
      [(KStr ''has_sufficient_info'', PBool False),
       (KStr ''missing_information'', PList [PStr (''Error in analysis: '' @ t)]),
       (KStr ''follow_up_questions'',
          PList [PStr ''There was an error processing your request. Please try again.'']),
       (KStr ''execution_plan'',
          PDict [(KStr ''required_workers'', PList []), (KStr ''task_breakdown'', PList []),
                 (KStr ''estimated_complexity'', PStr ''unknown'')]),
       (KStr ''confidence_score'', PFloat 0)]"

text \<open>The prompt is built from values that always print and serialise, so the only
  failures are the model's call and the parse of its answer. The inner handler catches
  JSONDecodeError only; whatever else \<^verbatim>\<open>json.loads\<close> raises reaches the outer handler,
  as a failure of the call does.\<close>

fun is_JSONDecodeError :: "pyexc \<Rightarrow> bool" where
  "is_JSONDecodeError (JSONDecodeError t) = True"
| "is_JSONDecodeError e = False"

definition analyze_user_query :: "env \<Rightarrow> string option \<Rightarrow> SystemState \<Rightarrow> pyval" where
  "analyze_user_query w q st =
     (case analysis_llm w of
        Raises t \<Rightarrow> analysis_error_fallback t
      | Content c \<Rightarrow>
          (case json_loads w c of
             Inr analysis \<Rightarrow> analysis
           | Inl e \<Rightarrow>
               if is_JSONDecodeError e then analysis_parse_fallback
               else analysis_error_fallback (str_exc w e)))"

text \<open>\<^verbatim>\<open>str.isspace\<close> on the code points below 256, \<^verbatim>\<open>str.strip()\<close> and
  \<^verbatim>\<open>str.split(sep)\<close> for a one-character separator.\<close>

definition py_isspace :: "char \<Rightarrow> bool" where
  "py_isspace c = ((of_char c :: nat) \<in> {9, 10, 11, 12, 13, 28, 29, 30, 31, 32, 133, 160})"

definition py_strip :: "string \<Rightarrow> string" where
  "py_strip s = rev (dropWhile py_isspace (rev (dropWhile py_isspace s)))"

fun py_split :: "char \<Rightarrow> string \<Rightarrow> string list" where
  "py_split sep [] = [[]]"
| "py_split sep (c # cs) =
     (if c = sep then [] # py_split sep cs
      else (case py_split sep cs of [] \<Rightarrow> [[c]] | x # xs \<Rightarrow> (c # x) # xs))"

text \<open>The join of the missing information is evaluated inside \<^verbatim>\<open>try\<close> and again
  inside the handler; when it raises, the handler raises too and the error leaves the
  function.\<close>

definition generate_follow_up_questions ::
  "env \<Rightarrow> pyval \<Rightarrow> string option \<Rightarrow> pyexc + string list" where
  "generate_follow_up_questions w missing_info q =
     (case py_join '', '' missing_info of
        Inl e \<Rightarrow> Inl e
      | Inr joined \<Rightarrow>
          (case questions_llm w of
             Raises t \<Rightarrow> Inr [''Could you provide more details about: '' @ joined]
           | Content c \<Rightarrow>
               Inr (take 3
                 (map py_strip
                   (filter (\<lambda>l. py_strip l \<noteq> [] \<and> CHR ''?'' \<in> set l)
                     (py_split (CHR 0x0A) c))))))"

definition parse_fallback_plan :: pyval where
  "parse_fallback_plan =
     PDict
      [(KStr ''worker_assignments'',
          PList
           [PDict [(KStr ''worker_id'', PStr ''research_worker''),
                   (KStr ''task'', PStr ''Gather information related to the query''),
                   (KStr ''priority'', PStr ''high''),
                   (KStr ''dependencies'', PList [])],
            PDict [(KStr ''worker_id'', PStr ''creative_worker''),
                   (KStr ''task'', PStr ''Process and present the information creatively''),
                   (KStr ''priority'', PStr ''medium''),
                   (KStr ''dependencies'', PList [PStr ''research_worker''])]]),
       (KStr ''execution_order'', PList [PStr ''research_worker'', PStr ''creative_worker'']),
       (KStr ''expected_outputs'', PList [PStr ''Research findings'', PStr ''Creative presentation'']),
       (KStr ''quality_checks'',
          PList [PStr ''Verify information accuracy'',
                 PStr ''Ensure creative output meets requirements''])]"

definition error_fallback_plan :: pyval where
  "error_fallback_plan =
     PDict
      [(KStr ''worker_assignments'', PList []), (KStr ''execution_order'', PList []),
       (KStr ''expected_outputs'', PList []), (KStr ''quality_checks'', PList [])]"

definition create_execution_plan ::
  "env \<Rightarrow> string option \<Rightarrow> pyval \<Rightarrow> SystemState \<Rightarrow> pyval" where
  "create_execution_plan w q analysis st =
     (case plan_llm w of
        Raises t \<Rightarrow> error_fallback_plan
      | Content c \<Rightarrow>
          (case json_loads w c of
             Inr plan \<Rightarrow> plan
           | Inl e \<Rightarrow>
               if is_JSONDecodeError e then parse_fallback_plan else error_fallback_plan))"

text \<open>The availability check of \<^verbatim>\<open>coordinate_workers\<close> (line 192).\<close>

definition worker_busy :: "SystemState \<Rightarrow> key \<Rightarrow> bool" where
  "worker_busy st k = (case map_of (worker_states st) k of None \<Rightarrow> False | Some ws \<Rightarrow> is_busy ws)"

type_synonym dispatcher = "nat \<Rightarrow> pyval \<Rightarrow> pyval \<Rightarrow> (string \<times> pyval) list \<Rightarrow> pyexc + string"

text \<open>
  One round of the loop over the assignments, for the assignment \<open>a\<close> at position \<open>i\<close>.
  The two subscripts and the membership test stand outside the inner \<^verbatim>\<open>try\<close>: what
  they raise ends the loop (\<open>Inl\<close>). The dispatch and the update of the worker state stand
  inside it: what they raise becomes the worker's entry of the results. The dispatcher is a
  parameter of the round; \<^verbatim>\<open>coordinate_workers\<close> calls it with \<open>execute_worker_task\<close>.
\<close>

definition coordinate_step ::
  "dispatcher \<Rightarrow> env \<Rightarrow> nat \<Rightarrow> pyval \<Rightarrow> (key \<times> pyval) list \<Rightarrow> SystemState \<Rightarrow>
     pyexc + ((key \<times> pyval) list \<times> SystemState)" where
  "coordinate_step disp w i a results st =
     (case py_getitem a ''worker_id'' of
        Inl e \<Rightarrow> Inl e
      | Inr wid \<Rightarrow>
     (case py_getitem a ''task'' of
        Inl e \<Rightarrow> Inl e
      | Inr task \<Rightarrow>
     (case py_hash wid of
        Inl e \<Rightarrow> Inl e
      | Inr k \<Rightarrow>
          if worker_busy st k
          then Inr (AList.update k (PStr (''Worker '' @ fmt w wid @ '' is busy'')) results, st)
          else
            (case disp i wid task (context_gathered (supervisor_memory st)) of
               Inl e \<Rightarrow>
                 Inr (AList.update k (PStr (''Error executing task: '' @ str_exc w e)) results, st)
             | Inr result \<Rightarrow>
                 (case (case map_of (worker_states st) k of
                          Some ws \<Rightarrow> Inr ws
                        | None \<Rightarrow> new_WorkerState w wid) of
                    Inl e \<Rightarrow>
                      Inr (AList.update k (PStr (''Error executing task: '' @ str_exc w e))
                             (AList.update k (PStr result) results), st)
                  | Inr ws \<Rightarrow>
                      Inr (AList.update k (PStr result) results,
                           st\<lparr>worker_states :=
                                AList.update k
                                  (ws\<lparr>current_task := Some task, task_result := Some result,
                                      is_busy := False\<rparr>)
                                  (worker_states st)\<rparr>))))))"

text \<open>The loop. The state is mutated in place, so what the rounds before a failing one
  did to it stays.\<close>

fun coordinate_loop ::
  "dispatcher \<Rightarrow> env \<Rightarrow> nat \<Rightarrow> pyval list \<Rightarrow> (key \<times> pyval) list \<Rightarrow> SystemState \<Rightarrow>
     (pyexc + (key \<times> pyval) list) \<times> SystemState" where
  "coordinate_loop disp w i [] results st = (Inr results, st)"
| "coordinate_loop disp w i (a # as) results st =
     (case coordinate_step disp w i a results st of
        Inl e \<Rightarrow> (Inl e, st)
      | Inr (results', st') \<Rightarrow> coordinate_loop disp w (Suc i) as results' st')"

definition coordination_error :: "env \<Rightarrow> pyexc \<Rightarrow> (key \<times> pyval) list" where
  "coordination_error w e = [(KStr ''error'', PStr (''Coordination error: '' @ str_exc w e))]"

definition coordinate_workers_via ::
  "dispatcher \<Rightarrow> env \<Rightarrow> pyval \<Rightarrow> SystemState \<Rightarrow> (key \<times> pyval) list \<times> SystemState" where
  "coordinate_workers_via disp w execution_plan st =
     (case py_get execution_plan ''worker_assignments'' (PList []) of
        Inl e \<Rightarrow> (coordination_error w e, st)
      | Inr worker_assignments \<Rightarrow>
          (case py_iter worker_assignments of
             Inl e \<Rightarrow> (coordination_error w e, st)
           | Inr as \<Rightarrow>
               (case coordinate_loop disp w 0 as [] st of
                  (Inl e, st') \<Rightarrow> (coordination_error w e, st')
                | (Inr results, st') \<Rightarrow> (results, st'))))"

definition coordinate_workers ::
  "env \<Rightarrow> pyval \<Rightarrow> SystemState \<Rightarrow> (key \<times> pyval) list \<times> SystemState" where
  "coordinate_workers w = coordinate_workers_via (execute_worker_task w) w"

text \<open>\<^verbatim>\<open>worker_results.items()\<close> stands inside the \<^verbatim>\<open>try\<close>.\<close>

definition synthesize_results :: "env \<Rightarrow> pyval \<Rightarrow> string option \<Rightarrow> SystemState \<Rightarrow> string" where
  "synthesize_results w worker_results q st =
     (case worker_results of
        PDict d \<Rightarrow>
          (case synthesis_llm w of
             Raises t \<Rightarrow> ''Error synthesizing results: '' @ t
           | Content c \<Rightarrow> c)
      | v \<Rightarrow> ''Error synthesizing results: '' @ str_exc w (AttributeError v ''items''))"

definition update_memory :: "Message \<Rightarrow> SystemState \<Rightarrow> SystemState" where
  "update_memory m st =
     (let mem = add_message (supervisor_memory st) m
      in st\<lparr>supervisor_memory :=
              (if message_type m = USER_INPUT
               then update_context mem ''last_user_input'' (PStr (content m))
               else if message_type m = WORKER_RESPONSE
               then update_context mem (''worker_'' @ sender m @ ''_last_response'')
                      (PStr (content m))
               else mem)\<rparr>)"

section \<open>workflow.py\<close>

definition context_get :: "SystemState \<Rightarrow> string \<Rightarrow> pyval \<Rightarrow> pyval" where
  "context_get st k dflt =
     (case map_of (context_gathered (supervisor_memory st)) k of None \<Rightarrow> dflt | Some v \<Rightarrow> v)"

definition context_set :: "string \<Rightarrow> pyval \<Rightarrow> SystemState \<Rightarrow> SystemState" where
  "context_set k v st = st\<lparr>supervisor_memory := update_context (supervisor_memory st) k v\<rparr>"

text \<open>\<^verbatim>\<open>Message(content=state.user_query, ...)\<close> is validated by pydantic: a query of
  \<^verbatim>\<open>None\<close> raises. Every statement of a node stands in its \<^verbatim>\<open>try\<close>; the handler
  sets \<^verbatim>\<open>error_message\<close> on the state as the statements before the failure left it.\<close>

definition supervisor_analysis_node :: "env \<Rightarrow> SystemState \<Rightarrow> SystemState" where
  "supervisor_analysis_node w st =
     (case user_query st of
        None \<Rightarrow>
          st\<lparr>error_message :=
               Some (''Error in supervisor analysis: '' @ str_exc w (ValidationError PNone))\<rparr>
      | Some q \<Rightarrow>
          (let st1 = update_memory
                       \<lparr>content = q, sender = ''user'', message_type = USER_INPUT,
                        metadata = None\<rparr> st;
               analysis = analyze_user_query w (user_query st1) st1;
               st2 = context_set ''last_analysis'' analysis st1
           in (case py_get analysis ''has_sufficient_info'' (PBool False) of
                 Inl e \<Rightarrow>
                   st2\<lparr>error_message :=
                         Some (''Error in supervisor analysis: '' @ str_exc w e)\<rparr>
               | Inr v \<Rightarrow>
                   st2\<lparr>current_phase :=
                         (if py_truthy v then ''processing'' else ''gathering_info'')\<rparr>)))"

definition gather_info_node :: "env \<Rightarrow> SystemState \<Rightarrow> SystemState" where
  "gather_info_node w st =
     (let analysis = context_get st ''last_analysis'' (PDict [])
      in (case py_get analysis ''missing_information'' (PList []) of
            Inl e \<Rightarrow> st\<lparr>error_message := Some (''Error in gathering info: '' @ str_exc w e)\<rparr>
          | Inr missing_info \<Rightarrow>
              if py_truthy missing_info
              then
                (case generate_follow_up_questions w missing_info (user_query st) of
                   Inl e \<Rightarrow>
                     st\<lparr>error_message := Some (''Error in gathering info: '' @ str_exc w e)\<rparr>
                 | Inr follow_up_questions \<Rightarrow>
                     context_set ''follow_up_questions'' (PList (map PStr follow_up_questions))
                       (update_memory
                          \<lparr>content = join_str [CHR 0x0A] follow_up_questions,
                           sender = ''supervisor'', message_type = SUPERVISOR_QUESTION,
                           metadata = None\<rparr> st))
              else st))"

text \<open>Neither \<^verbatim>\<open>create_execution_plan\<close> nor \<^verbatim>\<open>coordinate_workers\<close> lets an exception
  out, so the handler of this node has nothing to catch.\<close>

definition execute_workers_node :: "env \<Rightarrow> SystemState \<Rightarrow> SystemState" where
  "execute_workers_node w st =
     (let analysis = context_get st ''last_analysis'' (PDict []);
          execution_plan = create_execution_plan w (user_query st) analysis st;
          st1 = context_set ''execution_plan'' execution_plan st;
          (worker_results, st2) = coordinate_workers w execution_plan st1;
          st3 = context_set ''worker_results'' (PDict worker_results) st2
      in st3\<lparr>current_phase := ''completed''\<rparr>)"

definition synthesize_results_node :: "env \<Rightarrow> SystemState \<Rightarrow> SystemState" where
  "synthesize_results_node w st =
     (let worker_results = context_get st ''worker_results'' (PDict [])
      in if py_truthy worker_results
         then
           (let final = synthesize_results w worker_results (user_query st) st
            in update_memory
                 \<lparr>content = final, sender = ''supervisor'',
                  message_type = SUPERVISOR_DECISION, metadata = None\<rparr>
                 (st\<lparr>final_response := Some final\<rparr>))
         else st)"

text \<open>\<^verbatim>\<open>if state.error_message:\<close> holds for a message that is set and not empty.\<close>

definition error_set :: "SystemState \<Rightarrow> bool" where
  "error_set st = (case error_message st of None \<Rightarrow> False | Some t \<Rightarrow> t \<noteq> [])"

definition route_after_analysis :: "SystemState \<Rightarrow> pyexc + string" where
  "route_after_analysis st =
     (let analysis = context_get st ''last_analysis'' (PDict [])
      in if error_set st then Inr ''end''
         else
           (case py_get analysis ''has_sufficient_info'' (PBool False) of
              Inl e \<Rightarrow> Inl e
            | Inr v \<Rightarrow> Inr (if py_truthy v then ''execute_workers'' else ''gather_info'')))"

text \<open>
  The graph of \<^verbatim>\<open>_build_graph\<close>: four nodes and the end; the entry edge leads to the
  analysis, the analysis has the conditional edges, the other nodes one edge each. The
  engine runs a node on the state, then follows the node's edge. \<open>graph_run\<close> also
  returns the nodes it ran, in order.
\<close>

datatype node = SupervisorAnalysis | GatherInfo | ExecuteWorkers | SynthesizeResults | End

definition conditional_edges :: "(string \<times> node) list" where
  "conditional_edges =
     [(''gather_info'', GatherInfo), (''execute_workers'', ExecuteWorkers), (''end'', End)]"

fun run_node :: "env \<Rightarrow> node \<Rightarrow> SystemState \<Rightarrow> SystemState" where
  "run_node w SupervisorAnalysis st = supervisor_analysis_node w st"
| "run_node w GatherInfo st = gather_info_node w st"
| "run_node w ExecuteWorkers st = execute_workers_node w st"
| "run_node w SynthesizeResults st = synthesize_results_node w st"
| "run_node w End st = st"

fun next_node :: "node \<Rightarrow> SystemState \<Rightarrow> pyexc + node" where
  "next_node SupervisorAnalysis st =
     (case route_after_analysis st of
        Inl e \<Rightarrow> Inl e
      | Inr r \<Rightarrow> (case map_of conditional_edges r of None \<Rightarrow> Inl (KeyError r) | Some n \<Rightarrow> Inr n))"
| "next_node GatherInfo st = Inr End"
| "next_node ExecuteWorkers st = Inr SynthesizeResults"
| "next_node SynthesizeResults st = Inr End"
| "next_node End st = Inr End"

fun node_rank :: "node \<Rightarrow> nat" where
  "node_rank SupervisorAnalysis = 3"
| "node_rank ExecuteWorkers = 2"
| "node_rank GatherInfo = 1"
| "node_rank SynthesizeResults = 1"
| "node_rank End = 0"

function graph_run :: "env \<Rightarrow> node \<Rightarrow> SystemState \<Rightarrow> pyexc + (node list \<times> SystemState)" where
  "graph_run w n st =
     (if n = End then Inr ([], st)
      else
        (let st' = run_node w n st
         in (case next_node n st' of
               Inl e \<Rightarrow> Inl e
             | Inr n' \<Rightarrow>
                 (case graph_run w n' st' of
                    Inl e \<Rightarrow> Inl e
                  | Inr (ns, fin) \<Rightarrow> Inr (n # ns, fin)))))"
  by pat_completeness auto
termination
proof (relation "measure (\<lambda>(w, n, st). node_rank n)")
  show "wf (measure (\<lambda>(w, n, st). node_rank n))"
    by simp
next
  fix w :: env and n n' :: node and st st' :: SystemState
  assume "n \<noteq> End" and "st' = run_node w n st" and "next_node n st' = Inr n'"
  then have "node_rank n' < node_rank n"
    by (cases n)
       (auto simp: conditional_edges_def route_after_analysis_def Let_def
             split: sum.splits if_splits)
  then show "((w, n', st'), (w, n, st)) \<in> measure (\<lambda>(w, n, st). node_rank n)"
    by simp
qed

definition graph_ainvoke :: "env \<Rightarrow> SystemState \<Rightarrow> pyexc + SystemState" where
  "graph_ainvoke w st =
     (case graph_run w SupervisorAnalysis st of Inl e \<Rightarrow> Inl e | Inr (ns, fin) \<Rightarrow> Inr fin)"

text \<open>
  \<^verbatim>\<open>process_query\<close>. The module imports \<^verbatim>\<open>SystemState\<close>, \<^verbatim>\<open>Message\<close> and
  \<^verbatim>\<open>MessageType\<close> from \<^verbatim>\<open>models\<close>, not \<^verbatim>\<open>WorkerState\<close>; the name is looked up when
  line 178 runs. \<open>workflow_globals\<close> lists the names the module binds.
\<close>

definition workflow_globals :: "string list" where
  "workflow_globals =
     [''Dict'', ''Any'', ''List'', ''StateGraph'', ''END'', ''START'', ''SystemState'',
      ''Message'', ''MessageType'', ''Supervisor'', ''WORKER_REGISTRY'', ''asyncio'',
      ''json'', ''LangGraphWorkflow'']"

definition workflow_WorkerState :: "env \<Rightarrow> pyval \<Rightarrow> pyexc + WorkerState" where
  "workflow_WorkerState w v =
     (if ''WorkerState'' \<in> set workflow_globals then new_WorkerState w v
      else Inl (NameError ''WorkerState''))"

text \<open>The loop of lines 177 and 178 over the keys of the registry.\<close>

fun init_worker_states :: "env \<Rightarrow> key list \<Rightarrow> SystemState \<Rightarrow> pyexc + SystemState" where
  "init_worker_states w [] st = Inr st"
| "init_worker_states w (k # ks) st =
     (case workflow_WorkerState w (key_value k) of
        Inl e \<Rightarrow> Inl e
      | Inr ws \<Rightarrow>
          init_worker_states w ks (st\<lparr>worker_states := AList.update k ws (worker_states st)\<rparr>))"

text \<open>The response built from the final state (lines 184 to 206).\<close>

definition build_response :: "SystemState \<Rightarrow> (string \<times> pyval) list" where
  "build_response fin =
     (let response =
            [(''status'', PStr ''success''),
             (''current_phase'', PStr (current_phase fin)),
             (''supervisor_memory_size'',
                PInt (int (length (conversation_history (supervisor_memory fin))))),
             (''active_workers'',
                PInt (int (length (filter (\<lambda>ws. is_busy ws) (map snd (worker_states fin))))))]
      in if error_set fin
         then AList.update ''error'' (PStr (the (error_message fin)))
                (AList.update ''status'' (PStr ''error'') response)
         else if current_phase fin = ''gathering_info''
         then AList.update ''message'' (PStr ''Please provide additional information to proceed.'')
                (AList.update ''follow_up_questions''
                   (context_get fin ''follow_up_questions'' (PList []))
                   (AList.update ''action'' (PStr ''gather_info'') response))
         else if current_phase fin = ''completed''
         then AList.update ''message'' (PStr ''Task completed successfully.'')
                (AList.update ''worker_results'' (context_get fin ''worker_results'' (PDict []))
                   (AList.update ''final_response''
                      (case final_response fin of None \<Rightarrow> PNone | Some t \<Rightarrow> PStr t)
                      (AList.update ''action'' (PStr ''completed'') response)))
         else response)"

text \<open>The response of the handler (lines 209 to 212).\<close>

definition error_response :: "env \<Rightarrow> pyexc \<Rightarrow> (string \<times> pyval) list" where
  "error_response w e =
     [(''status'', PStr ''error''),
      (''error'', PStr (''Workflow execution error: '' @ str_exc w e))]"

definition process_query :: "env \<Rightarrow> string \<Rightarrow> (string \<times> pyval) list" where
  "process_query w query =
     (case init_worker_states w (map fst WORKER_REGISTRY) (new_SystemState query) of
        Inl e \<Rightarrow> error_response w e
      | Inr initial_state \<Rightarrow>
          (case graph_ainvoke w initial_state of
             Inl e \<Rightarrow> error_response w e
           | Inr final_state \<Rightarrow> build_response final_state))"

section \<open>Notions of the claims\<close>

text \<open>What the routing reads from the stored analysis:
  \<^verbatim>\<open>analysis.get("has_sufficient_info", False)\<close> as a truth value.\<close>

definition has_sufficient_info :: "SystemState \<Rightarrow> bool" where
  "has_sufficient_info st =
     (case py_get (context_get st ''last_analysis'' (PDict [])) ''has_sufficient_info''
             (PBool False) of
        Inl e \<Rightarrow> False
      | Inr v \<Rightarrow> py_truthy v)"

text \<open>The key under which a round of the loop records its result: defined when the
  assignment has both subscripts and its worker id is hashable.\<close>

definition assignment_key :: "pyval \<Rightarrow> key option" where
  "assignment_key a =
     (case py_getitem a ''worker_id'' of
        Inl e \<Rightarrow> None
      | Inr wid \<Rightarrow>
          (case py_getitem a ''task'' of
             Inl e \<Rightarrow> None
           | Inr task \<Rightarrow> (case py_hash wid of Inl e \<Rightarrow> None | Inr k \<Rightarrow> Some k)))"

text \<open>A list without its repetitions, each element at its first position: the order of the
  keys of a dictionary after the elements were assigned in the order of the list.\<close>

definition first_occurrences :: "'a list \<Rightarrow> 'a list" where
  "first_occurrences xs = rev (remdups (rev xs))"


text \<open>
  An assignment that is an object with a task and a worker id that is a string, and the
  entries the loop assigns to the results for a list of such assignments, in the order of
  the list: under the worker id, the text \<open>execute_worker_task\<close> returns for the
  assignment at that position.
\<close>

definition text_assignment :: "pyval \<Rightarrow> bool" where
  "text_assignment a =
     (case py_getitem a ''worker_id'' of
        Inr (PStr s) \<Rightarrow> (case py_getitem a ''task'' of Inr task \<Rightarrow> True | Inl e \<Rightarrow> False)
      | _ \<Rightarrow> False)"

fun dispatch_entries ::
  "env \<Rightarrow> (string \<times> pyval) list \<Rightarrow> nat \<Rightarrow> pyval list \<Rightarrow> (key \<times> pyval) list" where
  "dispatch_entries w ctx i [] = []"
| "dispatch_entries w ctx i (a # as) =
     (case (py_getitem a ''worker_id'', py_getitem a ''task'') of
        (Inr wid, Inr task) \<Rightarrow>
          (case (py_hash wid, execute_worker_task w i wid task ctx) of
             (Inr k, Inr result) \<Rightarrow> [(k, PStr result)]
           | _ \<Rightarrow> [])
      | _ \<Rightarrow> []) @ dispatch_entries w ctx (Suc i) as"

section \<open>config.py\<close>

text \<open>The class attributes of \<^verbatim>\<open>Config\<close> as they stand after the module is loaded:
  each is read from the process environment, the two sizes with the defaults 10 and 30.
  No other module reads \<^verbatim>\<open>SUPERVISOR_MEMORY_SIZE\<close> or \<^verbatim>\<open>WORKER_TIMEOUT\<close>.\<close>

record Config =
  OPENAI_API_KEY :: "string option"
  OPENAI_MODEL :: string
  SUPERVISOR_MEMORY_SIZE :: int
  WORKER_TIMEOUT :: int

definition default_Config :: Config where
  "default_Config =
     \<lparr>OPENAI_API_KEY = None, OPENAI_MODEL = ''gpt-4'', SUPERVISOR_MEMORY_SIZE = 10,
      WORKER_TIMEOUT = 30\<rparr>"

section \<open>Concrete inputs\<close>

text \<open>A collaborator whose analysis says that the information suffices, whose plan is
  unparseable (so the two-step fallback plan is used), and whose other answers are short
  texts.\<close>

definition demo_env :: env where
  "demo_env =
     \<lparr>analysis_llm = Content ''A'', questions_llm = Raises ''down'', plan_llm = Content ''P'',
      synthesis_llm = Content ''S'', worker_llm = (\<lambda>i. Content ''R''),
      json_loads =
        (\<lambda>s. if s = ''A'' then Inr (PDict [(KStr ''has_sufficient_info'', PBool True)])
             else Inl (JSONDecodeError ''Expecting value'')),
      py_str = (\<lambda>v. ''?''), pydantic_str = (\<lambda>v. Inl (ValidationError v)),
      exc_text = (\<lambda>e. ''error'')\<rparr>"

definition demo_message :: Message where
  "demo_message =
     \<lparr>content = ''hello'', sender = ''user'', message_type = USER_INPUT, metadata = None\<rparr>"

text \<open>A plan that gives the research worker two tasks; a plan whose first assignment has
  the worker id \<^verbatim>\<open>null\<close>; and the same plan with a second assignment that has no
  task.\<close>

definition repeated_plan :: pyval where
  "repeated_plan =
     PDict
      [(KStr ''worker_assignments'',
          PList
           [PDict [(KStr ''worker_id'', PStr ''research_worker''),
                   (KStr ''task'', PStr ''find sources'')],
            PDict [(KStr ''worker_id'', PStr ''research_worker''),
                   (KStr ''task'', PStr ''summarise the sources'')]])]"



text \<open>The collaborator of \<open>demo_env\<close> with a planning answer that parses to the given
  plan; with the repeated plan, the two calls of the worker answer differently.\<close>

definition env_with_plan :: "pyval \<Rightarrow> env" where
  "env_with_plan plan =
     demo_env\<lparr>json_loads :=
       (\<lambda>s. if s = ''A'' then Inr (PDict [(KStr ''has_sufficient_info'', PBool True)])
            else if s = ''P'' then Inr plan
            else Inl (JSONDecodeError ''Expecting value''))\<rparr>"

definition repeated_env :: env where
  "repeated_env =
     (env_with_plan repeated_plan)
       \<lparr>worker_llm := (\<lambda>i. if i = 0 then Content ''first answer'' else Content ''second answer'')\<rparr>"

text \<open>An answer of the analysis that is one integer of 5000 digits: \<^verbatim>\<open>json.loads\<close> raises
  ValueError on it, not JSONDecodeError.\<close>

definition overlong_text :: string where
  "overlong_text = replicate 5000 (CHR ''1'')"

definition overlong_env :: env where
  "overlong_env =
     demo_env
       \<lparr>analysis_llm := Content overlong_text,
        json_loads :=
          (\<lambda>s. if s = overlong_text
               then Inl (ValueError ''Exceeds the limit (4300 digits) for integer string conversion'')
               else Inl (JSONDecodeError ''Expecting value''))\<rparr>"

section \<open>The bounded conversation history\<close>

lemma py_slice_from_neg:
  "0 < k \<Longrightarrow> py_slice_from xs (- int k) = drop (length xs - k) xs"
  by (auto simp: py_slice_from_def Let_def max_def nat_diff_distrib' intro: arg_cong [where f = "\<lambda>n. drop n xs"])

lemma history_add_message:
  "conversation_history (add_message mem m) =
     drop (length (conversation_history mem) + 1 - 10) (conversation_history mem @ [m])"
proof -
  have "py_slice_from (conversation_history mem @ [m]) (- 10) =
        drop (length (conversation_history mem @ [m]) - 10) (conversation_history mem @ [m])"
    using py_slice_from_neg [of 10 "conversation_history mem @ [m]"] by simp
  then show ?thesis
    by (simp add: add_message_def Let_def)
qed

lemma drop_tail_tail:
  "drop (length (drop (length xs - k) xs @ ys) - k) (drop (length xs - k) xs @ ys) =
   drop (length (xs @ ys) - k) (xs @ ys)"
proof (cases "length xs \<le> k")
  case True
  then show ?thesis by simp
next
  case False
  then have "length (drop (length xs - k) xs) = k" by simp
  then show ?thesis using False
    by (simp add: add.commute)
qed

lemma history_add_messages:
  "msgs \<noteq> [] \<Longrightarrow>
   conversation_history (foldl add_message mem msgs) =
     drop (length (conversation_history mem @ msgs) - 10) (conversation_history mem @ msgs)"
proof (induction msgs arbitrary: mem)
  case Nil
  then show ?case by simp
next
  case (Cons m ms)
  show ?case
  proof (cases "ms = []")
    case True
    then show ?thesis by (simp add: history_add_message)
  next
    case False
    let ?h = "conversation_history mem @ [m]"
    have step: "conversation_history (add_message mem m) = drop (length ?h - 10) ?h"
      by (simp add: history_add_message)
    have "conversation_history (foldl add_message (add_message mem m) ms) =
          drop (length (drop (length ?h - 10) ?h @ ms) - 10) (drop (length ?h - 10) ?h @ ms)"
      using Cons.IH [OF False, of "add_message mem m"] unfolding step .
    also have "\<dots> = drop (length (?h @ ms) - 10) (?h @ ms)"
      by (rule drop_tail_tail)
    finally show ?thesis by simp
  qed
qed

lemma get_recent_context_pos:
  "0 < n \<Longrightarrow>
   get_recent_context mem (int n) =
     drop (length (conversation_history mem) - min n (length (conversation_history mem)))
       (conversation_history mem)"
  by (auto simp: get_recent_context_def py_slice_from_neg min_def)

lemma history_cap:
  "length (conversation_history mem) \<le> 10 \<or> msgs \<noteq> [] \<Longrightarrow>
   length (conversation_history (foldl add_message mem msgs)) \<le> 10"
  by (cases "msgs = []") (auto simp: history_add_messages)

lemma history_recent:
  "10 \<le> length msgs \<Longrightarrow>
   conversation_history (foldl add_message mem msgs) = drop (length msgs - 10) msgs"
proof -
  assume a: "10 \<le> length msgs"
  then have "msgs \<noteq> []" by auto
  then show ?thesis using a by (simp add: history_add_messages)
qed

section \<open>Dictionaries and first occurrences\<close>

lemma set_update_subset: "set (AList.update k v al) \<subseteq> insert (k, v) (set al)"
  by (induction al) auto

lemma first_occurrences_snoc:
  "first_occurrences (xs @ [k]) =
     (if k \<in> set xs then first_occurrences xs else first_occurrences xs @ [k])"
  by (simp add: first_occurrences_def)

lemma first_occurrences_distinct: "distinct xs \<Longrightarrow> first_occurrences xs = xs"
  by (simp add: first_occurrences_def distinct_remdups_id)

lemma remdups_later: "k \<in> set ys \<Longrightarrow> remdups (xs @ k # ys) = remdups (xs @ ys)"
  by (induction xs) auto

lemma first_occurrences_repeat:
  "k \<in> set xs \<Longrightarrow> first_occurrences (xs @ k # ys) = first_occurrences (xs @ ys)"
  by (simp add: first_occurrences_def remdups_later)

section \<open>Fields the operations leave alone\<close>

lemma worker_states_update_memory [simp]:
  "worker_states (update_memory m st) = worker_states st"
  by (simp add: update_memory_def Let_def)

lemma worker_states_context_set [simp]:
  "worker_states (context_set k v st) = worker_states st"
  by (simp add: context_set_def)

lemma worker_states_analysis [simp]:
  "worker_states (supervisor_analysis_node w st) = worker_states st"
  by (simp add: supervisor_analysis_node_def Let_def split: option.splits sum.splits)

lemma worker_states_gather [simp]:
  "worker_states (gather_info_node w st) = worker_states st"
  by (simp add: gather_info_node_def Let_def split: option.splits sum.splits)

lemma worker_states_synthesize [simp]:
  "worker_states (synthesize_results_node w st) = worker_states st"
  by (simp add: synthesize_results_node_def Let_def)

lemma context_get_set [simp]: "context_get (context_set k v st) k d = v"
  by (simp add: context_get_def context_set_def update_context_def update_conv')

lemma error_message_context_set [simp]:
  "error_message (context_set k v st) = error_message st"
  by (simp add: context_set_def)

lemma error_message_update_memory [simp]:
  "error_message (update_memory m st) = error_message st"
  by (simp add: update_memory_def Let_def)

lemma current_phase_context_set [simp]:
  "current_phase (context_set k v st) = current_phase st"
  by (simp add: context_set_def)

lemma current_phase_update_memory [simp]:
  "current_phase (update_memory m st) = current_phase st"
  by (simp add: update_memory_def Let_def)

lemma current_phase_gather [simp]:
  "current_phase (gather_info_node w st) = current_phase st"
  by (simp add: gather_info_node_def Let_def split: sum.splits)

section \<open>The rounds of the coordination loop\<close>

lemma step_abort:
  "(\<exists>e. coordinate_step disp w i a rs st = Inl e) \<longleftrightarrow> assignment_key a = None"
  by (auto simp: coordinate_step_def assignment_key_def split: sum.splits option.splits)

lemma step_shape:
  assumes "coordinate_step disp w i a rs st = Inr (rs', st')"
  shows "\<exists>k v. assignment_key a = Some k \<and> rs' = AList.update k v rs"
proof -
  from assms obtain wid task k where
    f: "py_getitem a ''worker_id'' = Inr wid" "py_getitem a ''task'' = Inr task"
       "py_hash wid = Inr k"
    by (auto simp: coordinate_step_def split: sum.splits)
  then have key: "assignment_key a = Some k"
    by (simp add: assignment_key_def)
  have "\<exists>v. rs' = AList.update k v rs"
    using assms f
    by (auto simp: coordinate_step_def split: sum.splits option.splits if_splits)
  with key show ?thesis by blast
qed

lemma step_keys:
  assumes "coordinate_step disp w i a rs st = Inr (rs', st')"
  shows "\<exists>k. assignment_key a = Some k \<and>
             map fst rs' = (if k \<in> set (map fst rs) then map fst rs else map fst rs @ [k])"
proof -
  from step_shape [OF assms] obtain k v where
    "assignment_key a = Some k" and "rs' = AList.update k v rs"
    by blast
  then show ?thesis
    by (intro exI [of _ k]) (simp add: update_keys)
qed

lemma step_lookup:
  assumes "coordinate_step disp w i a rs st = Inr (rs', st')" and "assignment_key a \<noteq> Some k"
  shows "map_of rs' k = map_of rs k"
proof -
  from step_shape [OF assms(1)] obtain k' v where
    "assignment_key a = Some k'" and "rs' = AList.update k' v rs"
    by blast
  then show ?thesis
    using assms(2) by (simp add: update_conv')
qed

lemma loop_keys:
  "coordinate_loop disp w i as rs st = (Inr rs', st') \<Longrightarrow> distinct (map fst rs) \<Longrightarrow>
   map fst rs' = first_occurrences (map fst rs @ List.map_filter assignment_key as)"
proof (induction as arbitrary: i rs st)
  case Nil
  then show ?case by (simp add: first_occurrences_distinct)
next
  case (Cons a as)
  show ?case
  proof (cases "coordinate_step disp w i a rs st")
    case (Inl e)
    then show ?thesis using Cons.prems by simp
  next
    case (Inr p)
    obtain rs1 st1 where p: "p = (rs1, st1)" by (cases p)
    from step_keys [OF Inr [unfolded p]] obtain k where
      k: "assignment_key a = Some k" and
      keys: "map fst rs1 = (if k \<in> set (map fst rs) then map fst rs else map fst rs @ [k])"
      by blast
    have d: "distinct (map fst rs1)" using keys Cons.prems(2) by (simp split: if_splits)
    have "coordinate_loop disp w (Suc i) as rs1 st1 = (Inr rs', st')"
      using Cons.prems(1) Inr p by simp
    from Cons.IH [OF this d]
    have "map fst rs' = first_occurrences (map fst rs1 @ List.map_filter assignment_key as)" .
    also have "\<dots> = first_occurrences (map fst rs @ k # List.map_filter assignment_key as)"
    proof (cases "k \<in> set (map fst rs)")
      case True
      then show ?thesis using keys by (simp add: first_occurrences_repeat)
    next
      case False
      then show ?thesis using keys by simp
    qed
    finally show ?thesis using k by simp
  qed
qed

lemma loop_lookup:
  "coordinate_loop disp w i as rs st = (Inr rs', st') \<Longrightarrow>
   Some k \<notin> assignment_key ` set as \<Longrightarrow> map_of rs' k = map_of rs k"
proof (induction as arbitrary: i rs st)
  case Nil
  then show ?case by simp
next
  case (Cons a as)
  show ?case
  proof (cases "coordinate_step disp w i a rs st")
    case (Inl e)
    then show ?thesis using Cons.prems by simp
  next
    case (Inr p)
    obtain rs1 st1 where p: "p = (rs1, st1)" by (cases p)
    have "assignment_key a \<noteq> Some k" using Cons.prems(2) by auto
    from step_lookup [OF Inr [unfolded p] this] have "map_of rs1 k = map_of rs k" .
    moreover have "map_of rs' k = map_of rs1 k"
      using Cons.IH [of "Suc i" rs1 st1] Cons.prems Inr p by simp
    ultimately show ?thesis by simp
  qed
qed

lemma loop_completes:
  "list_all (\<lambda>a. assignment_key a \<noteq> None) as \<Longrightarrow>
   \<exists>rs' st'. coordinate_loop disp w i as rs st = (Inr rs', st')"
proof (induction as arbitrary: i rs st)
  case Nil
  then show ?case by simp
next
  case (Cons a as)
  from Cons.prems have "assignment_key a \<noteq> None" by simp
  then obtain p where "coordinate_step disp w i a rs st = Inr p"
    using step_abort [of disp w i a rs st] by (cases "coordinate_step disp w i a rs st") auto
  moreover obtain rs1 st1 where "p = (rs1, st1)" by (cases p)
  ultimately show ?case using Cons.IH [of "Suc i" rs1 st1] Cons.prems by simp
qed


lemma coordinate_keys:
  assumes "py_get plan ''worker_assignments'' (PList []) = Inr was"
      and "py_iter was = Inr as"
      and "list_all (\<lambda>a. assignment_key a \<noteq> None) as"
  shows "map fst (fst (coordinate_workers_via disp w plan st)) =
           first_occurrences (List.map_filter assignment_key as)"
proof -
  from loop_completes [OF assms(3), of disp w 0 "[]" st] obtain rs' st' where
    l: "coordinate_loop disp w 0 as [] st = (Inr rs', st')" by blast
  from loop_keys [OF l] have "map fst rs' = first_occurrences (List.map_filter assignment_key as)"
    by simp
  then show ?thesis using assms(1,2) l
    by (simp add: coordinate_workers_via_def)
qed

lemma loop_frame:
  "\<exists>ws. snd (coordinate_loop disp w i as rs st) = st\<lparr>worker_states := ws\<rparr>"
proof (induction as arbitrary: i rs st)
  case Nil
  show ?case by (rule exI [of _ "worker_states st"]) simp
next
  case (Cons a as)
  show ?case
  proof (cases "coordinate_step disp w i a rs st")
    case (Inl e)
    show ?thesis by (rule exI [of _ "worker_states st"]) (simp add: Inl)
  next
    case (Inr p)
    obtain rs1 st1 where p: "p = (rs1, st1)" by (cases p)
    have "\<exists>ws. st1 = st\<lparr>worker_states := ws\<rparr>"
    proof (cases "st1 = st")
      case True
      show ?thesis by (rule exI [of _ "worker_states st"]) (simp add: True)
    next
      case False
      then show ?thesis using Inr p
        by (auto simp: coordinate_step_def split: sum.splits if_splits option.splits)
    qed
    then obtain ws1 where st1: "st1 = st\<lparr>worker_states := ws1\<rparr>" by blast
    from Cons.IH [of "Suc i" rs1 st1] obtain ws where
      "snd (coordinate_loop disp w (Suc i) as rs1 st1) = st1\<lparr>worker_states := ws\<rparr>" by blast
    then show ?thesis using Inr p st1 by (intro exI [of _ ws]) simp
  qed
qed

lemma coordinate_frame:
  "\<exists>ws. snd (coordinate_workers_via disp w plan st) = st\<lparr>worker_states := ws\<rparr>"
proof -
  have trivial: "\<exists>ws. st = st\<lparr>worker_states := ws\<rparr>"
    by (rule exI [of _ "worker_states st"]) simp
  show ?thesis
  proof (cases "py_get plan ''worker_assignments'' (PList [])")
    case (Inl e)
    then show ?thesis using trivial by (simp add: coordinate_workers_via_def)
  next
    case (Inr was)
    show ?thesis
    proof (cases "py_iter was")
      case (Inl e)
      then show ?thesis using trivial Inr by (simp add: coordinate_workers_via_def)
    next
      case (Inr as)
      from loop_frame [of disp w 0 as "[]" st] obtain ws where
        "snd (coordinate_loop disp w 0 as [] st) = st\<lparr>worker_states := ws\<rparr>" by blast
      then show ?thesis using Inr \<open>py_get plan ''worker_assignments'' (PList []) = Inr was\<close>
        by (intro exI [of _ ws])
           (auto simp: coordinate_workers_via_def split: prod.splits sum.splits)
    qed
  qed
qed

section \<open>No worker is busy\<close>

lemma idle_update:
  "list_all (\<lambda>(k, ws). \<not> is_busy ws) al \<Longrightarrow> \<not> is_busy v \<Longrightarrow>
   list_all (\<lambda>(k, ws). \<not> is_busy ws) (AList.update k v al)"
  using set_update_subset [of k v al] by (auto simp: list_all_iff)







lemma idle_not_busy:
  "list_all (\<lambda>(k, ws). \<not> is_busy ws) (worker_states st) \<Longrightarrow> \<not> worker_busy st k"
  by (auto simp: worker_busy_def list_all_iff split: option.splits dest: map_of_SomeD)


section \<open>The nodes and the graph\<close>

declare graph_run.simps [simp del]

lemma graph_run_End: "graph_run w End st = Inr ([], st)"
  by (simp add: graph_run.simps)

lemma graph_run_step:
  "n \<noteq> End \<Longrightarrow>
   graph_run w n st =
     (case next_node n (run_node w n st) of
        Inl e \<Rightarrow> Inl e
      | Inr n' \<Rightarrow>
          (case graph_run w n' (run_node w n st) of
             Inl e \<Rightarrow> Inl e
           | Inr (ns, fin) \<Rightarrow> Inr (n # ns, fin)))"
  by (subst graph_run.simps) (simp add: Let_def)

text \<open>After the analysis of a state without an error: either the handler has set a
  message that is not empty, or the stored analysis is a dictionary and the phase follows
  its flag.\<close>

lemma analysis_node_outcome:
  assumes "error_message st = None"
  shows "(error_set (supervisor_analysis_node w st) \<and>
          error_message (supervisor_analysis_node w st) \<noteq> None) \<or>
         (error_message (supervisor_analysis_node w st) = None \<and>
          (\<exists>v. py_get (context_get (supervisor_analysis_node w st) ''last_analysis'' (PDict []))
                  ''has_sufficient_info'' (PBool False) = Inr v \<and>
               current_phase (supervisor_analysis_node w st) =
                 (if py_truthy v then ''processing'' else ''gathering_info'')))"
proof (cases "user_query st")
  case None
  then show ?thesis
    by (simp add: supervisor_analysis_node_def error_set_def)
next
  case (Some q)
  let ?st1 = "update_memory
                \<lparr>content = q, sender = ''user'', message_type = USER_INPUT, metadata = None\<rparr> st"
  let ?a = "analyze_user_query w (user_query ?st1) ?st1"
  show ?thesis
  proof (cases "py_get ?a ''has_sufficient_info'' (PBool False)")
    case (Inl e)
    then show ?thesis using Some
      by (simp add: supervisor_analysis_node_def Let_def error_set_def)
  next
    case (Inr v)
    then show ?thesis using Some assms
      by (simp add: supervisor_analysis_node_def Let_def context_get_def context_set_def
            update_context_def update_conv')
  qed
qed

text \<open>The state and the results after the execution node, in terms of the plan.\<close>

lemma execute_workers_node_result:
  fixes w st
  defines "plan \<equiv> create_execution_plan w (user_query st)
                      (context_get st ''last_analysis'' (PDict [])) st"
  defines "r \<equiv> coordinate_workers w plan (context_set ''execution_plan'' plan st)"
  shows "current_phase (execute_workers_node w st) = ''completed''"
    and "error_message (execute_workers_node w st) = error_message st"
    and "final_response (execute_workers_node w st) = final_response st"
    and "user_query (execute_workers_node w st) = user_query st"
    and "context_get (execute_workers_node w st) ''worker_results'' d = PDict (fst r)"
    and "context_get (execute_workers_node w st) ''execution_plan'' d = plan"
proof -
  from coordinate_frame [of "execute_worker_task w" w plan "context_set ''execution_plan'' plan st"]
  obtain ws where
    snd: "snd r = (context_set ''execution_plan'' plan st)\<lparr>worker_states := ws\<rparr>"
    unfolding r_def coordinate_workers_def by blast
  have node: "execute_workers_node w st =
                (context_set ''worker_results'' (PDict (fst r)) (snd r))\<lparr>current_phase := ''completed''\<rparr>"
    by (simp add: execute_workers_node_def Let_def plan_def r_def split: prod.splits)
  show "current_phase (execute_workers_node w st) = ''completed''"
    by (simp add: node)
  show "error_message (execute_workers_node w st) = error_message st"
    by (simp add: node snd context_set_def)
  show "final_response (execute_workers_node w st) = final_response st"
    by (simp add: node snd context_set_def)
  show "user_query (execute_workers_node w st) = user_query st"
    by (simp add: node snd context_set_def)
  show "context_get (execute_workers_node w st) ''worker_results'' d = PDict (fst r)"
    by (simp add: node snd context_set_def context_get_def update_context_def update_conv')
  show "context_get (execute_workers_node w st) ''execution_plan'' d = plan"
    by (simp add: node snd context_set_def context_get_def update_context_def update_conv')
qed

lemma synthesize_results_node_result:
  assumes "context_get st ''worker_results'' (PDict []) = PDict rs"
  shows "current_phase (synthesize_results_node w st) = current_phase st"
    and "error_message (synthesize_results_node w st) = error_message st"
    and "context_get (synthesize_results_node w st) k d = context_get st k d"
    and "final_response (synthesize_results_node w st) =
           (if rs = [] then final_response st
            else Some (case synthesis_llm w of
                         Raises t \<Rightarrow> ''Error synthesizing results: '' @ t
                       | Content c \<Rightarrow> c))"
  using assms
  by (simp_all add: synthesize_results_node_def synthesize_results_def Let_def
        update_memory_def context_get_def add_message_def)

lemma build_response_lookup:
  "map_of (build_response fin) ''current_phase'' = Some (PStr (current_phase fin))"
  "map_of (build_response fin) ''supervisor_memory_size'' =
     Some (PInt (int (length (conversation_history (supervisor_memory fin)))))"
  "map_of (build_response fin) ''active_workers'' =
     Some (PInt (int (length (filter is_busy (map snd (worker_states fin))))))"
  by (simp_all add: build_response_def Let_def update_conv')


section \<open>The entries the loop assigns\<close>

lemma map_of_assigned:
  "map_of (foldl (\<lambda>d (k, v). AList.update k v d) d es) = map_of (rev es @ d)"
proof (induction es arbitrary: d)
  case Nil
  show ?case by simp
next
  case (Cons x es)
  obtain k v where x: "x = (k, v)" by (cases x)
  have "map_of (foldl (\<lambda>d (k, v). AList.update k v d) (AList.update k v d) es) =
        map_of (rev es @ AList.update k v d)"
    by (rule Cons.IH)
  also have "\<dots> = map_of (rev es @ (k, v) # d)"
    by (simp add: map_of_append update_conv')
  finally show ?case by (simp add: x)
qed

lemma execute_worker_task_text:
  "py_hash wid = Inr k \<Longrightarrow> \<exists>t. execute_worker_task w i wid task ctx = Inr t"
  by (simp add: execute_worker_task_def split: option.splits)

lemma step_text:
  assumes "text_assignment a"
      and "list_all (\<lambda>(k, ws). \<not> is_busy ws) (worker_states st)"
  shows "\<exists>k t ws.
           dispatch_entries w (context_gathered (supervisor_memory st)) i [a] = [(k, PStr t)] \<and>
           coordinate_step (execute_worker_task w) w i a rs st =
             Inr (AList.update k (PStr t) rs, st\<lparr>worker_states := ws\<rparr>) \<and>
           list_all (\<lambda>(k, ws). \<not> is_busy ws) ws"
proof -
  from assms(1) obtain s task where
    f: "py_getitem a ''worker_id'' = Inr (PStr s)" "py_getitem a ''task'' = Inr task"
    by (auto simp: text_assignment_def split: sum.splits pyval.splits)
  obtain t where
    t: "execute_worker_task w i (PStr s) task (context_gathered (supervisor_memory st)) = Inr t"
    using execute_worker_task_text [of "PStr s" "KStr s" w i task
        "context_gathered (supervisor_memory st)"]
    by auto
  have nb: "\<not> worker_busy st (KStr s)"
    using assms(2) by (rule idle_not_busy)
  have e: "dispatch_entries w (context_gathered (supervisor_memory st)) i [a] = [(KStr s, PStr t)]"
    using f t by simp
  show ?thesis
  proof (cases "map_of (worker_states st) (KStr s)")
    case None
    let ?ws = "AList.update (KStr s)
                 \<lparr>worker_id = s, current_task = Some task, task_result = Some t,
                  is_busy = False\<rparr> (worker_states st)"
    have "coordinate_step (execute_worker_task w) w i a rs st =
            Inr (AList.update (KStr s) (PStr t) rs, st\<lparr>worker_states := ?ws\<rparr>)"
      using f t nb None by (simp add: coordinate_step_def new_WorkerState_def)
    moreover have "list_all (\<lambda>(k, ws). \<not> is_busy ws) ?ws"
      using assms(2) by (simp add: idle_update)
    ultimately show ?thesis using e by blast
  next
    case (Some ws0)
    let ?ws = "AList.update (KStr s)
                 (ws0\<lparr>current_task := Some task, task_result := Some t, is_busy := False\<rparr>)
                 (worker_states st)"
    have "coordinate_step (execute_worker_task w) w i a rs st =
            Inr (AList.update (KStr s) (PStr t) rs, st\<lparr>worker_states := ?ws\<rparr>)"
      using f t nb Some by (simp add: coordinate_step_def)
    moreover have "list_all (\<lambda>(k, ws). \<not> is_busy ws) ?ws"
      using assms(2) by (simp add: idle_update)
    ultimately show ?thesis using e by blast
  qed
qed

lemma dispatch_entries_Cons:
  "dispatch_entries w ctx i (a # as) =
     dispatch_entries w ctx i [a] @ dispatch_entries w ctx (Suc i) as"
  by simp

lemma loop_entries:
  "list_all text_assignment as \<Longrightarrow>
   list_all (\<lambda>(k, ws). \<not> is_busy ws) (worker_states st) \<Longrightarrow>
   fst (coordinate_loop (execute_worker_task w) w i as rs st) =
     Inr (foldl (\<lambda>d (k, v). AList.update k v d) rs
            (dispatch_entries w (context_gathered (supervisor_memory st)) i as))"
proof (induction as arbitrary: i rs st)
  case Nil
  show ?case by simp
next
  case (Cons a as)
  from Cons.prems have ta: "text_assignment a" and tas: "list_all text_assignment as"
    by simp_all
  from step_text [OF ta Cons.prems(2), of w i rs] obtain k t ws where
    e: "dispatch_entries w (context_gathered (supervisor_memory st)) i [a] = [(k, PStr t)]" and
    step: "coordinate_step (execute_worker_task w) w i a rs st =
             Inr (AList.update k (PStr t) rs, st\<lparr>worker_states := ws\<rparr>)" and
    idle: "list_all (\<lambda>(k, ws). \<not> is_busy ws) ws"
    by blast
  have idle': "list_all (\<lambda>(k, ws). \<not> is_busy ws) (worker_states (st\<lparr>worker_states := ws\<rparr>))"
    using idle by simp
  have "fst (coordinate_loop (execute_worker_task w) w (Suc i) as (AList.update k (PStr t) rs)
               (st\<lparr>worker_states := ws\<rparr>)) =
        Inr (foldl (\<lambda>d (k, v). AList.update k v d) (AList.update k (PStr t) rs)
               (dispatch_entries w (context_gathered (supervisor_memory st)) (Suc i) as))"
    using Cons.IH [OF tas idle', of "Suc i" "AList.update k (PStr t) rs"] by simp
  then show ?case
    using step e by (simp only: dispatch_entries_Cons [of w _ i a as] coordinate_loop.simps)
                    simp
qed

lemma text_assignment_key: "text_assignment a \<Longrightarrow> assignment_key a \<noteq> None"
  by (auto simp: text_assignment_def assignment_key_def split: sum.splits pyval.splits)

lemma coordinate_entries:
  assumes "py_get plan ''worker_assignments'' (PList []) = Inr was"
      and "py_iter was = Inr as"
      and "list_all text_assignment as"
      and "list_all (\<lambda>(k, ws). \<not> is_busy ws) (worker_states st)"
  shows "fst (coordinate_workers w plan st) =
           foldl (\<lambda>d (k, v). AList.update k v d) []
             (dispatch_entries w (context_gathered (supervisor_memory st)) 0 as)"
proof -
  from loop_entries [OF assms(3,4), of w 0 "[]"]
  have "fst (coordinate_loop (execute_worker_task w) w 0 as [] st) =
          Inr (foldl (\<lambda>d (k, v). AList.update k v d) []
                 (dispatch_entries w (context_gathered (supervisor_memory st)) 0 as))" .
  then show ?thesis
    using assms(1,2)
    by (cases "coordinate_loop (execute_worker_task w) w 0 as [] st")
       (simp add: coordinate_workers_def coordinate_workers_via_def)
qed




section \<open>Evaluation of concrete runs\<close>

lemmas node_defs =
  supervisor_analysis_node_def gather_info_node_def execute_workers_node_def
  synthesize_results_node_def update_memory_def add_message_def update_context_def
  context_get_def context_set_def analyze_user_query_def create_execution_plan_def
  generate_follow_up_questions_def synthesize_results_def coordinate_workers_def
  coordinate_workers_via_def coordinate_step_def execute_worker_task_def process_task_def
  worker_busy_def new_WorkerState_def fmt_def str_exc_def py_join_def
  analysis_parse_fallback_def analysis_error_fallback_def parse_fallback_plan_def
  error_fallback_plan_def WORKER_REGISTRY_def new_SystemState_def new_SupervisorMemory_def
  has_sufficient_info_def error_set_def coordination_error_def

lemmas run_defs =
  graph_run_step graph_run_End route_after_analysis_def conditional_edges_def node_defs
  demo_env_def Let_def

section \<open>The claims\<close>

text \<open>
  C1 (amended). When the analysis raises no error and its flag says that the information
  suffices, the run goes through the analysis, the execution and the synthesis and ends
  with the phase "completed" and no error message. The results stored under
  "worker_results" are keyed by worker id: when every assignment of the plan is
  well-formed, their keys are the worker ids of the assignments without repetitions, in the
  order of first appearance (one entry per worker, not per assignment). When moreover the
  worker ids are strings and no worker is busy at the start, the results are the dictionary
  obtained by assigning, in the order of the plan, the text of each dispatch under its
  worker id, so a worker id maps to the result of the last assignment that names it. The
  final response is set only when the results are not empty; it is then the text of the
  synthesis (the collaborator's answer, or "Error synthesizing results: ..." when its call
  raises).
\<close>

theorem sufficient_info_run:
  assumes "error_message (supervisor_analysis_node w st) = None"
      and "has_sufficient_info (supervisor_analysis_node w st)"
  shows
    "\<exists>fin results.
       graph_run w SupervisorAnalysis st =
         Inr ([SupervisorAnalysis, ExecuteWorkers, SynthesizeResults], fin) \<and>
       current_phase fin = ''completed'' \<and>
       error_message fin = None \<and>
       context_get fin ''worker_results'' (PDict []) = PDict results \<and>
       (\<forall>was as.
          py_get (context_get fin ''execution_plan'' PNone) ''worker_assignments'' (PList []) =
            Inr was \<and>
          py_iter was = Inr as \<and> list_all (\<lambda>a. assignment_key a \<noteq> None) as \<longrightarrow>
          map fst results = first_occurrences (List.map_filter assignment_key as)) \<and>
       (\<forall>was as entries.
          py_get (context_get fin ''execution_plan'' PNone) ''worker_assignments'' (PList []) =
            Inr was \<and>
          py_iter was = Inr as \<and> list_all text_assignment as \<and>
          list_all (\<lambda>(k, ws). \<not> is_busy ws) (worker_states st) \<and>
          entries =
            dispatch_entries w
              (context_gathered (supervisor_memory
                 (context_set ''execution_plan'' (context_get fin ''execution_plan'' PNone)
                    (supervisor_analysis_node w st))))
              0 as \<longrightarrow>
          results = foldl (\<lambda>d (k, v). AList.update k v d) [] entries \<and>
          map_of results = map_of (rev entries)) \<and>
       final_response fin =
         (if results = [] then final_response st
          else Some (case synthesis_llm w of
                       Raises t \<Rightarrow> ''Error synthesizing results: '' @ t
                     | Content c \<Rightarrow> c))"
proof -
  let ?s1 = "supervisor_analysis_node w st"
  let ?s2 = "execute_workers_node w ?s1"
  let ?fin = "synthesize_results_node w ?s2"
  let ?plan = "create_execution_plan w (user_query ?s1)
                 (context_get ?s1 ''last_analysis'' (PDict [])) ?s1"
  let ?s1' = "context_set ''execution_plan'' ?plan ?s1"
  let ?results = "fst (coordinate_workers w ?plan ?s1')"
  have route: "route_after_analysis ?s1 = Inr ''execute_workers''"
    using assms
    by (auto simp: route_after_analysis_def has_sufficient_info_def error_set_def Let_def
             split: sum.splits)
  have run: "graph_run w SupervisorAnalysis st =
               Inr ([SupervisorAnalysis, ExecuteWorkers, SynthesizeResults], ?fin)"
    by (simp add: graph_run_step graph_run_End route conditional_edges_def)
  have wr: "context_get ?s2 ''worker_results'' (PDict []) = PDict ?results"
    by (rule execute_workers_node_result(5))
  have phase: "current_phase ?fin = ''completed''"
    by (simp add: synthesize_results_node_result(1) [OF wr] execute_workers_node_result(1))
  have err: "error_message ?fin = None"
    by (simp add: synthesize_results_node_result(2) [OF wr] execute_workers_node_result(2) assms(1))
  have res: "context_get ?fin ''worker_results'' (PDict []) = PDict ?results"
    by (simp add: synthesize_results_node_result(3) [OF wr] wr)
  have plan: "context_get ?fin ''execution_plan'' PNone = ?plan"
    by (simp add: synthesize_results_node_result(3) [OF wr] execute_workers_node_result(6))
  have keys:
    "\<forall>was as.
       py_get (context_get ?fin ''execution_plan'' PNone) ''worker_assignments'' (PList []) =
         Inr was \<and>
       py_iter was = Inr as \<and> list_all (\<lambda>a. assignment_key a \<noteq> None) as \<longrightarrow>
       map fst ?results = first_occurrences (List.map_filter assignment_key as)"
    unfolding plan coordinate_workers_def using coordinate_keys by blast
  have idle1: "worker_states ?s1' = worker_states st"
    by simp
  have entries:
    "?results = foldl (\<lambda>d (k, v). AList.update k v d) [] entries \<and>
     map_of ?results = map_of (rev entries)"
    if "py_get ?plan ''worker_assignments'' (PList []) = Inr was"
      and "py_iter was = Inr asg" and "list_all text_assignment asg"
      and "list_all (\<lambda>(k, ws). \<not> is_busy ws) (worker_states st)"
      and "entries = dispatch_entries w (context_gathered (supervisor_memory ?s1')) 0 asg"
    for was asg entries
  proof -
    have "list_all (\<lambda>(k, ws). \<not> is_busy ws) (worker_states ?s1')"
      using that(4) by (simp only: idle1)
    from coordinate_entries [OF that(1,2,3) this]
    have eq: "?results = foldl (\<lambda>d (k, v). AList.update k v d) [] entries"
      using that(5) by simp
    then have "map_of ?results = map_of (rev entries)"
      by (simp add: map_of_assigned)
    with eq show ?thesis by simp
  qed
  have vals:
    "\<forall>was as entries.
       py_get (context_get ?fin ''execution_plan'' PNone) ''worker_assignments'' (PList []) =
         Inr was \<and>
       py_iter was = Inr as \<and> list_all text_assignment as \<and>
       list_all (\<lambda>(k, ws). \<not> is_busy ws) (worker_states st) \<and>
       entries =
         dispatch_entries w
           (context_gathered (supervisor_memory
              (context_set ''execution_plan'' (context_get ?fin ''execution_plan'' PNone) ?s1)))
           0 as \<longrightarrow>
       ?results = foldl (\<lambda>d (k, v). AList.update k v d) [] entries \<and>
       map_of ?results = map_of (rev entries)"
    unfolding plan using entries by blast
  have "final_response ?s1 = final_response st"
    by (simp add: supervisor_analysis_node_def Let_def context_set_def update_memory_def
          split: option.splits sum.splits)
  then have final:
    "final_response ?fin =
       (if ?results = [] then final_response st
        else Some (case synthesis_llm w of
                     Raises t \<Rightarrow> ''Error synthesizing results: '' @ t
                   | Content c \<Rightarrow> c))"
    by (simp add: synthesize_results_node_result(4) [OF wr] execute_workers_node_result(3))
  show ?thesis
    using run phase err res keys vals final by blast
qed

theorem sufficient_info_run_witness:
  "error_message (supervisor_analysis_node repeated_env (new_SystemState ''hi'')) = None \<and>
   has_sufficient_info (supervisor_analysis_node repeated_env (new_SystemState ''hi'')) \<and>
   list_all text_assignment
     [PDict [(KStr ''worker_id'', PStr ''research_worker''),
             (KStr ''task'', PStr ''find sources'')],
      PDict [(KStr ''worker_id'', PStr ''research_worker''),
             (KStr ''task'', PStr ''summarise the sources'')]] \<and>
   list_all (\<lambda>(k, ws). \<not> is_busy ws) (worker_states (new_SystemState ''hi'')) \<and>
   (case graph_run repeated_env SupervisorAnalysis (new_SystemState ''hi'') of
      Inl e \<Rightarrow> False
    | Inr (ns, fin) \<Rightarrow>
        ns = [SupervisorAnalysis, ExecuteWorkers, SynthesizeResults] \<and>
        current_phase fin = ''completed'' \<and>
        py_get (context_get fin ''execution_plan'' PNone) ''worker_assignments'' (PList []) =
          Inr (PList
                [PDict [(KStr ''worker_id'', PStr ''research_worker''),
                        (KStr ''task'', PStr ''find sources'')],
                 PDict [(KStr ''worker_id'', PStr ''research_worker''),
                        (KStr ''task'', PStr ''summarise the sources'')]]) \<and>
        context_get fin ''worker_results'' (PDict []) =
          PDict [(KStr ''research_worker'', PStr ''second answer'')] \<and>
        final_response fin = Some ''S'') \<and>
   (case graph_run demo_env SupervisorAnalysis (new_SystemState ''hi'') of
      Inl e \<Rightarrow> False
    | Inr (ns, fin) \<Rightarrow>
        context_get fin ''worker_results'' (PDict []) =
          PDict [(KStr ''research_worker'', PStr ''R''), (KStr ''creative_worker'', PStr ''R'')] \<and>
        final_response fin = Some ''S'')"
proof -
  have h1: "error_message (supervisor_analysis_node repeated_env (new_SystemState ''hi'')) = None"
    by (simp add: run_defs repeated_env_def env_with_plan_def)
  have h2: "has_sufficient_info (supervisor_analysis_node repeated_env (new_SystemState ''hi''))"
    by (simp add: run_defs repeated_env_def env_with_plan_def)
  have g1: "error_message (supervisor_analysis_node demo_env (new_SystemState ''hi'')) = None"
    by (simp add: run_defs)
  have g2: "has_sufficient_info (supervisor_analysis_node demo_env (new_SystemState ''hi''))"
    by (simp add: run_defs)
  show ?thesis
    using h1 h2 sufficient_info_run [OF h1 h2] sufficient_info_run [OF g1 g2]
    by (simp add: run_defs repeated_env_def env_with_plan_def repeated_plan_def
          text_assignment_def)
qed

text \<open>
  C1 as stated fails twice. When the planning call raises, the plan has no
  assignment, the results are empty, the synthesis is skipped and the final response stays
  unset. When the plan gives one worker two tasks, the results hold one entry for the two
  assignments, the answer to the second.
\<close>

theorem sufficient_info_run_counterexample:
  "has_sufficient_info
     (supervisor_analysis_node (demo_env\<lparr>plan_llm := Raises ''overloaded''\<rparr>)
        (new_SystemState ''hi'')) \<and>
   (case graph_run (demo_env\<lparr>plan_llm := Raises ''overloaded''\<rparr>) SupervisorAnalysis
           (new_SystemState ''hi'') of
      Inl e \<Rightarrow> False
    | Inr (ns, fin) \<Rightarrow>
        current_phase fin = ''completed'' \<and> error_message fin = None \<and>
        final_response fin = None) \<and>
   has_sufficient_info (supervisor_analysis_node repeated_env (new_SystemState ''hi'')) \<and>
   (case graph_run repeated_env SupervisorAnalysis (new_SystemState ''hi'') of
      Inl e \<Rightarrow> False
    | Inr (ns, fin) \<Rightarrow>
        py_get (context_get fin ''execution_plan'' PNone) ''worker_assignments'' (PList []) =
          Inr (PList
                [PDict [(KStr ''worker_id'', PStr ''research_worker''),
                        (KStr ''task'', PStr ''find sources'')],
                 PDict [(KStr ''worker_id'', PStr ''research_worker''),
                        (KStr ''task'', PStr ''summarise the sources'')]]) \<and>
        context_get fin ''worker_results'' (PDict []) =
          PDict [(KStr ''research_worker'', PStr ''second answer'')])"
  by (simp add: run_defs repeated_env_def env_with_plan_def repeated_plan_def)

text \<open>
  C2. The history is cut to the literal 10 of \<^verbatim>\<open>add_message\<close> (\<open>history_cap\<close>,
  \<open>history_recent\<close>), whatever size is configured: with
  \<^verbatim>\<open>SUPERVISOR_MEMORY_SIZE\<close> set to 5, six appended messages are all retained.
\<close>

theorem add_message_ignores_configured_size:
  "SUPERVISOR_MEMORY_SIZE (default_Config\<lparr>SUPERVISOR_MEMORY_SIZE := 5\<rparr>) = 5 \<and>
   length (conversation_history
             (foldl add_message new_SupervisorMemory (replicate 6 demo_message))) = 6"
  by (simp add: add_message_def new_SupervisorMemory_def Let_def numeral_eq_Suc)

text \<open>
  C3. For a limit of 0 the slice \<^verbatim>\<open>[-0:]\<close> is the whole list: on a history of one
  message \<^verbatim>\<open>get_recent_context(0)\<close> returns that message, not the empty sequence.
  (For a positive limit it returns the last \<open>min n (length history)\<close> messages:
  \<open>get_recent_context_pos\<close>.)
\<close>

theorem get_recent_context_zero:
  "get_recent_context (new_SupervisorMemory\<lparr>conversation_history := [demo_message]\<rparr>) 0 =
     [demo_message]"
  by (simp add: get_recent_context_def py_slice_from_def)

text \<open>
  C4. A run that starts without an error message: after the analysis the routing answers
  "end" when the handler of the analysis has set the error message, else "execute_workers"
  when the stored analysis has a true \<^verbatim>\<open>has_sufficient_info\<close>, else "gather_info"; the
  graph runs exactly the nodes of that route. Without an error and with a false flag the run
  is the analysis followed by the gathering of information, it ends in the phase
  "gathering_info", and the execution node, the only caller of
  \<^verbatim>\<open>coordinate_workers\<close>, is not among the nodes run.
\<close>

theorem routing_after_analysis:
  assumes "error_message st = None"
  shows
    "let s1 = supervisor_analysis_node w st in
       route_after_analysis s1 =
         Inr (if error_message s1 \<noteq> None then ''end''
              else if has_sufficient_info s1 then ''execute_workers'' else ''gather_info'') \<and>
       graph_run w SupervisorAnalysis st =
         Inr (if error_message s1 \<noteq> None then ([SupervisorAnalysis], s1)
              else if has_sufficient_info s1
              then ([SupervisorAnalysis, ExecuteWorkers, SynthesizeResults],
                    synthesize_results_node w (execute_workers_node w s1))
              else ([SupervisorAnalysis, GatherInfo], gather_info_node w s1)) \<and>
       (error_message s1 = None \<and> \<not> has_sufficient_info s1 \<longrightarrow>
          current_phase (gather_info_node w s1) = ''gathering_info'')"
proof -
  let ?s1 = "supervisor_analysis_node w st"
  have route:
    "route_after_analysis ?s1 =
       Inr (if error_message ?s1 \<noteq> None then ''end''
            else if has_sufficient_info ?s1 then ''execute_workers'' else ''gather_info'')"
    using analysis_node_outcome [OF assms, of w]
    by (auto simp: route_after_analysis_def has_sufficient_info_def Let_def error_set_def)
  have run:
    "graph_run w SupervisorAnalysis st =
       Inr (if error_message ?s1 \<noteq> None then ([SupervisorAnalysis], ?s1)
            else if has_sufficient_info ?s1
            then ([SupervisorAnalysis, ExecuteWorkers, SynthesizeResults],
                  synthesize_results_node w (execute_workers_node w ?s1))
            else ([SupervisorAnalysis, GatherInfo], gather_info_node w ?s1))"
    by (simp add: graph_run_step graph_run_End route conditional_edges_def)
  have phase:
    "error_message ?s1 = None \<and> \<not> has_sufficient_info ?s1 \<longrightarrow>
       current_phase (gather_info_node w ?s1) = ''gathering_info''"
    using analysis_node_outcome [OF assms, of w]
    by (auto simp: has_sufficient_info_def)
  show ?thesis
    using route run phase by (simp add: Let_def)
qed

theorem routing_after_analysis_witness:
  "error_message (new_SystemState ''Help me write something'') = None \<and>
   route_after_analysis
     (supervisor_analysis_node (demo_env\<lparr>analysis_llm := Content ''not json''\<rparr>)
        (new_SystemState ''Help me write something'')) = Inr ''gather_info'' \<and>
   (case graph_run (demo_env\<lparr>analysis_llm := Content ''not json''\<rparr>) SupervisorAnalysis
           (new_SystemState ''Help me write something'') of
      Inl e \<Rightarrow> False
    | Inr (ns, fin) \<Rightarrow>
        ns = [SupervisorAnalysis, GatherInfo] \<and> current_phase fin = ''gathering_info'' \<and>
        error_message fin = None) \<and>
   route_after_analysis (supervisor_analysis_node demo_env (new_SystemState ''hi'')) =
     Inr ''execute_workers''"
proof -
  have h: "error_message (new_SystemState ''Help me write something'') = None"
    by (simp add: new_SystemState_def)
  have h': "error_message (new_SystemState ''hi'') = None"
    by (simp add: new_SystemState_def)
  show ?thesis
    using h routing_after_analysis [OF h, of "demo_env\<lparr>analysis_llm := Content ''not json''\<rparr>"]
      routing_after_analysis [OF h', of demo_env]
    by (simp add: run_defs)
qed

text \<open>
  C5 (amended). When the call of the language model raises, or \<^verbatim>\<open>json.loads\<close> raises
  on its answer, \<^verbatim>\<open>analyze_user_query\<close> returns a fallback analysis: no sufficient
  information, confidence 0.0, one missing-information entry and one follow-up question.
  The entry is "Unable to parse analysis" when \<^verbatim>\<open>json.loads\<close> raises JSONDecodeError; it
  is "Error in analysis: <cause>" when the call raises and also when \<^verbatim>\<open>json.loads\<close>
  raises anything else, which only the outer handler catches.
\<close>

theorem analyze_user_query_fallback:
  "(analysis_llm w = Raises t \<longrightarrow>
      analyze_user_query w q st =
        PDict
         [(KStr ''has_sufficient_info'', PBool False),
          (KStr ''missing_information'', PList [PStr (''Error in analysis: '' @ t)]),
          (KStr ''follow_up_questions'',
             PList [PStr ''There was an error processing your request. Please try again.'']),
          (KStr ''execution_plan'',
             PDict [(KStr ''required_workers'', PList []), (KStr ''task_breakdown'', PList []),
                    (KStr ''estimated_complexity'', PStr ''unknown'')]),
          (KStr ''confidence_score'', PFloat 0)]) \<and>
   (analysis_llm w = Content c \<and> json_loads w c = Inl (JSONDecodeError m) \<longrightarrow>
      analyze_user_query w q st =
        PDict
         [(KStr ''has_sufficient_info'', PBool False),
          (KStr ''missing_information'', PList [PStr ''Unable to parse analysis'']),
          (KStr ''follow_up_questions'', PList [PStr ''Could you please rephrase your request?'']),
          (KStr ''execution_plan'',
             PDict [(KStr ''required_workers'', PList []), (KStr ''task_breakdown'', PList []),
                    (KStr ''estimated_complexity'', PStr ''unknown'')]),
          (KStr ''confidence_score'', PFloat 0)]) \<and>
   (analysis_llm w = Content c \<and> json_loads w c = Inl e \<and> \<not> is_JSONDecodeError e \<longrightarrow>
      analyze_user_query w q st =
        PDict
         [(KStr ''has_sufficient_info'', PBool False),
          (KStr ''missing_information'', PList [PStr (''Error in analysis: '' @ str_exc w e)]),
          (KStr ''follow_up_questions'',
             PList [PStr ''There was an error processing your request. Please try again.'']),
          (KStr ''execution_plan'',
             PDict [(KStr ''required_workers'', PList []), (KStr ''task_breakdown'', PList []),
                    (KStr ''estimated_complexity'', PStr ''unknown'')]),
          (KStr ''confidence_score'', PFloat 0)])"
  by (simp add: analyze_user_query_def analysis_error_fallback_def analysis_parse_fallback_def)

theorem analyze_user_query_fallback_witness:
  "analysis_llm (demo_env\<lparr>analysis_llm := Raises ''timeout''\<rparr>) = Raises ''timeout'' \<and>
   py_getitem
     (analyze_user_query (demo_env\<lparr>analysis_llm := Raises ''timeout''\<rparr>) (Some ''hi'')
        (new_SystemState ''hi''))
     ''missing_information'' = Inr (PList [PStr ''Error in analysis: timeout'']) \<and>
   analysis_llm (demo_env\<lparr>analysis_llm := Content ''not json''\<rparr>) = Content ''not json'' \<and>
   json_loads (demo_env\<lparr>analysis_llm := Content ''not json''\<rparr>) ''not json'' =
     Inl (JSONDecodeError ''Expecting value'') \<and>
   py_getitem
     (analyze_user_query (demo_env\<lparr>analysis_llm := Content ''not json''\<rparr>) (Some ''hi'')
        (new_SystemState ''hi''))
     ''missing_information'' = Inr (PList [PStr ''Unable to parse analysis'']) \<and>
   analysis_llm overlong_env = Content overlong_text \<and>
   json_loads overlong_env overlong_text =
     Inl (ValueError ''Exceeds the limit (4300 digits) for integer string conversion'') \<and>
   py_getitem (analyze_user_query overlong_env (Some ''hi'') (new_SystemState ''hi''))
     ''follow_up_questions'' =
     Inr (PList [PStr ''There was an error processing your request. Please try again.''])"
  using
    analyze_user_query_fallback
      [of "demo_env\<lparr>analysis_llm := Raises ''timeout''\<rparr>" "''timeout''" "Some ''hi''"
          "new_SystemState ''hi''" "[]" "[]" "Raised []"]
    analyze_user_query_fallback
      [of "demo_env\<lparr>analysis_llm := Content ''not json''\<rparr>" "[]" "Some ''hi''"
          "new_SystemState ''hi''" "''not json''" "''Expecting value''" "Raised []"]
    analyze_user_query_fallback
      [of overlong_env "[]" "Some ''hi''" "new_SystemState ''hi''" overlong_text "[]"
          "ValueError ''Exceeds the limit (4300 digits) for integer string conversion''"]
  by (simp add: demo_env_def overlong_env_def)

text \<open>
  C5 as stated fails for an answer that \<^verbatim>\<open>json.loads\<close> rejects with another exception
  than JSONDecodeError, such as an integer of 5000 digits: the collaborator did not fail,
  the text is unparseable, and the entry is "Error in analysis: ...", not "Unable to parse
  analysis".
\<close>

theorem analyze_user_query_fallback_counterexample:
  "analysis_llm overlong_env = Content overlong_text \<and>
   json_loads overlong_env overlong_text =
     Inl (ValueError ''Exceeds the limit (4300 digits) for integer string conversion'') \<and>
   py_getitem (analyze_user_query overlong_env (Some ''hi'') (new_SystemState ''hi''))
     ''missing_information'' =
     Inr (PList
           [PStr ''Error in analysis: Exceeds the limit (4300 digits) for integer string conversion''])"
  by (simp add: analyze_user_query_def analysis_error_fallback_def overlong_env_def demo_env_def
        str_exc_def)




text \<open>
  C7. For a worker id that is not a key of the registry, \<^verbatim>\<open>execute_worker_task\<close>
  returns the text "Worker <id> not found", whatever the task, the context and the
  collaborators are, and does not raise.
\<close>

theorem execute_worker_task_not_found:
  "KStr s \<notin> fst ` set WORKER_REGISTRY \<Longrightarrow>
   execute_worker_task w i (PStr s) task ctx = Inr (''Worker '' @ s @ '' not found'')"
proof -
  assume "KStr s \<notin> fst ` set WORKER_REGISTRY"
  then have "map_of WORKER_REGISTRY (KStr s) = None"
    by (simp add: map_of_eq_None_iff)
  then show ?thesis
    by (simp add: execute_worker_task_def fmt_def)
qed

theorem execute_worker_task_not_found_witness:
  "KStr ''legal_worker'' \<notin> fst ` set WORKER_REGISTRY \<and>
   execute_worker_task demo_env 0 (PStr ''legal_worker'') (PStr ''review the contract'') [] =
     Inr ''Worker legal_worker not found''"
proof -
  have h: "KStr ''legal_worker'' \<notin> fst ` set WORKER_REGISTRY"
    by (simp add: WORKER_REGISTRY_def)
  show ?thesis
    using h execute_worker_task_not_found [OF h, of demo_env 0 "PStr ''review the contract''" "[]"]
    by simp
qed

text \<open>
  C8. \<^verbatim>\<open>process_query\<close> answers every query with the status "error": the first round of
  the loop that registers the worker states raises NameError, since \<^verbatim>\<open>workflow.py\<close> does
  not import \<^verbatim>\<open>WorkerState\<close>, and the handler of \<^verbatim>\<open>process_query\<close> catches it before
  the graph is invoked.
\<close>

theorem process_query_name_error:
  "process_query w q =
     [(''status'', PStr ''error''),
      (''error'',
         PStr (''Workflow execution error: name '' @ [CHR 0x27] @ ''WorkerState'' @ [CHR 0x27] @
               '' is not defined''))]"
  by (simp add: process_query_def WORKER_REGISTRY_def workflow_WorkerState_def
        workflow_globals_def error_response_def str_exc_def)

text \<open>
  C9 (amended). A response built from a final state holds "current_phase",
  "supervisor_memory_size" (the length of the retained history) and "active_workers" (the
  number of busy worker states); the response of the handler of \<^verbatim>\<open>process_query\<close>
  holds "status" and "error" only. Every result of \<^verbatim>\<open>process_query\<close> is one of the
  two.
\<close>

theorem response_keys:
  "map_of (build_response fin) ''current_phase'' = Some (PStr (current_phase fin)) \<and>
   map_of (build_response fin) ''supervisor_memory_size'' =
     Some (PInt (int (length (conversation_history (supervisor_memory fin))))) \<and>
   map_of (build_response fin) ''active_workers'' =
     Some (PInt (int (length (filter is_busy (map snd (worker_states fin)))))) \<and>
   map fst (error_response w e) = [''status'', ''error''] \<and>
   ((\<exists>fin. process_query w q = build_response fin) \<or>
    (\<exists>e. process_query w q = error_response w e))"
  by (auto simp: build_response_lookup error_response_def process_query_def split: sum.splits)

text \<open>
  C9 as stated fails on the path through the handler: the result has no
  "current_phase".
\<close>

theorem process_query_lacks_phase:
  "map_of (process_query demo_env ''Help me write something'') ''current_phase'' = None"
  by (simp add: process_query_def WORKER_REGISTRY_def workflow_WorkerState_def
        workflow_globals_def error_response_def)




end
